theory Spec2Isabelle
  imports Main "HOL-Library.Word"
begin

section \<open>Strings and digests\<close>

text \<open>
  JavaScript strings are modelled as \<open>string\<close>; a \<open>char\<close> stands for one code unit in the
  range U+0000..U+00FF. Byte buffers (\<open>Uint8Array\<close>, \<open>ArrayBuffer\<close>) are lists of 8-bit words.
\<close>

type_synonym bytes = "8 word list"

text \<open>\<open>String.prototype.split\<close> with a separator of one code unit.\<close>

fun split_on :: "char \<Rightarrow> string \<Rightarrow> string list" where
  "split_on sep [] = [[]]"
| "split_on sep (c # cs) =
     (if c = sep then [] # split_on sep cs
      else (case split_on sep cs of
              [] \<Rightarrow> [[c]]
            | t # ts \<Rightarrow> (c # t) # ts))"

text \<open>
  Line 152 of \<open>MaxMindFetcher.ts\<close>: \<open>hashText.split(" ")[0] || ""\<close>. The index \<open>[0]\<close> of an
  empty array is \<open>undefined\<close>, which \<open>||\<close> turns into the empty string, as it does the
  empty string itself.
\<close>

definition serverSha256_of :: "string \<Rightarrow> string" where
  "serverSha256_of hashText =
     (case split_on CHR '' '' hashText of
        [] \<Rightarrow> []
      | t # _ \<Rightarrow> (if t = [] then [] else t))"

text \<open>
  The white space of ECMAScript (\<open>WhiteSpace\<close> and \<open>LineTerminator\<close>) below U+0100:
  TAB, LF, VT, FF, CR, SPACE and NBSP.
\<close>

definition js_whitespace :: "char \<Rightarrow> bool" where
  "js_whitespace c \<longleftrightarrow> c \<in> {CHR 0x09, CHR 0x0A, CHR 0x0B, CHR 0x0C, CHR 0x0D, CHR 0x20, CHR 0xA0}"

text \<open>
  The words of the specification, for comparison with \<open>serverSha256_of\<close>: the first
  whitespace-delimited token, that is, the prefix up to the first white-space character
  of any kind.
\<close>

definition spec_first_whitespace_token :: "string \<Rightarrow> string" where
  "spec_first_whitespace_token body = takeWhile (\<lambda>c. \<not> js_whitespace c) body"

text \<open>\<open>String.prototype.trim\<close>.\<close>

definition trim :: "string \<Rightarrow> string" where
  "trim s = rev (dropWhile js_whitespace (rev (dropWhile js_whitespace s)))"

definition is_digit :: "char \<Rightarrow> bool" where
  "is_digit c \<longleftrightarrow> (of_char CHR ''0'' :: nat) \<le> of_char c \<and> (of_char c :: nat) \<le> of_char CHR ''9''"

definition digit_value :: "char \<Rightarrow> nat" where
  "digit_value c = of_char c - of_char CHR ''0''"

text \<open>
  \<open>parseInt\<close> on a string without leading white space, sign or radix prefix (the caller has
  trimmed the string and emptied it if it holds anything but digits): the value of the
  longest prefix of decimal digits, \<open>NaN\<close> (here \<open>None\<close>) when that prefix is empty. The
  result is an unbounded natural number; the rounding of JavaScript numbers above
  \<open>2^53\<close> is not modelled.
\<close>

definition parseInt :: "string \<Rightarrow> nat option" where
  "parseInt s =
     (let ds = takeWhile is_digit s
      in if ds = [] then None
         else Some (foldl (\<lambda>acc c. 10 * acc + digit_value c) 0 ds))"

definition digit_char :: "nat \<Rightarrow> char" where
  "digit_char d = ''0123456789'' ! d"

text \<open>
  \<open>String(n)\<close> for a non-negative integer: its decimal numeral. \<open>digit_char\<close> is only
  applied to numbers below ten.
\<close>

fun String_of_number :: "nat \<Rightarrow> string" where
  "String_of_number n =
     (if n < 10 then [digit_char n]
      else String_of_number (n div 10) @ [digit_char (n mod 10)])"

declare String_of_number.simps [simp del]

text \<open>
  \<open>getSha256FromBuffer\<close> of \<open>util.ts\<close>. The hash itself, \<open>crypto.subtle.digest("sha-256", \<dots>)\<close>,
  belongs to the platform and is a parameter; the function renders every byte of it with
  \<open>b.toString(16).padStart(2, "0")\<close> and joins the pieces.
\<close>

definition hex_digit :: "nat \<Rightarrow> char" where
  "hex_digit d = ''0123456789abcdef'' ! d"

definition byte_to_hex :: "8 word \<Rightarrow> string" where
  "byte_to_hex b = [hex_digit (unat b div 16), hex_digit (unat b mod 16)]"

definition getSha256FromBuffer :: "(bytes \<Rightarrow> bytes) \<Rightarrow> bytes \<Rightarrow> string" where
  "getSha256FromBuffer digest buffer = concat (map byte_to_hex (digest buffer))"

text \<open>\<open>String.prototype.endsWith\<close>.\<close>

definition endsWith :: "string \<Rightarrow> string \<Rightarrow> bool" where
  "endsWith s suffix \<longleftrightarrow>
     length suffix \<le> length s \<and> drop (length s - length suffix) s = suffix"

text \<open>\<open>Array.prototype.join\<close>.\<close>

fun join :: "string \<Rightarrow> string list \<Rightarrow> string" where
  "join sep [] = []"
| "join sep [x] = x"
| "join sep (x # y # ys) = x @ sep @ join sep (y # ys)"

section \<open>The check cycle of \<open>MaxMindFetcher\<close>\<close>

subsection \<open>Errors, the environment and the observable state\<close>

datatype error =
    JsError string \<comment> \<open>\<open>new Error(message)\<close>, thrown by the fetcher itself\<close>
  | NotFound \<comment> \<open>\<open>Deno.errors.NotFound\<close>\<close>
  | OtherIoError \<comment> \<open>any other rejection of a Deno file operation\<close>
  | FetchRejected \<comment> \<open>\<open>fetch\<close> rejected, or the body of a response could not be read\<close>
  | StreamError \<comment> \<open>the gzip or tar stream failed\<close>

text \<open>The file operations of a cycle; the environment says which of them the platform rejects.\<close>

datatype fsop =
  ReadLastChecked | ReadDb | CreateTemp | RemoveDb | RenameTemp | WriteLastChecked

text \<open>
  What \<open>fetch\<close> delivers: a rejection, or a response with its status code and its body
  (\<open>None\<close> when reading the body fails).
\<close>

datatype 'b fetched = Rejected | Response nat "'b option"

text \<open>An entry of \<open>UntarStream\<close>: \<open>readable\<close> is absent for entries without content.\<close>

datatype tar_entry = TarEntry (path: string) (readable: "bytes list option")

record config =
  ignoreNetworkErrors :: bool
  verbose :: bool

text \<open>
  Everything a cycle receives from outside: the hash function, the gzip and tar decoder
  (the entries it yields, and whether the stream fails after them), the two responses of
  the server, the two readings of \<open>Date.now()\<close> (line 148 and line 256) and the file
  operations that fail.
\<close>

record env =
  digest :: "bytes \<Rightarrow> bytes"
  untar :: "bytes \<Rightarrow> tar_entry list \<times> bool"
  sha256_endpoint :: "string fetched"
  tar_endpoint :: "bytes fetched"
  now_at_check :: nat
  now_at_write :: nat
  fails :: "fsop \<Rightarrow> bool"

text \<open>The calls a cycle makes to the outside, in their order.\<close>

datatype 'cb effect =
    HttpGet string
  | ConsoleLog string
  | CancelEntry string
  | CreateTempFile
  | RemoveDbFile
  | RenameTempToDb
  | WriteLastCheckedFile string
  | Callback 'cb string bytes

text \<open>
  The three files of the storage directory, the field \<open>#rewritePromise\<close> (the index of
  a promise, or \<open>null\<close>), the promises created so far (\<open>True\<close> once resolved) and the
  calls made.
\<close>

record 'cb world =
  lastChecked_txt :: "string option"
  db_mmdb :: "bytes option"
  tempDb_mmdb :: "bytes option"
  rewritePromise :: "nat option"
  promises :: "bool list"
  effects :: "'cb effect list"

definition HASH_CHECK_UPDATE_INTERVAL_MS :: int where
  "HASH_CHECK_UPDATE_INTERVAL_MS = 60 * 60 * 1000"

definition TIME_CHECK_UPDATE_INTERVAL_MS :: int where
  "TIME_CHECK_UPDATE_INTERVAL_MS = 10 * 60 * 1000"

definition emit :: "'cb effect \<Rightarrow> 'cb world \<Rightarrow> 'cb world" where
  "emit e w = w\<lparr>effects := effects w @ [e]\<rparr>"

subsection \<open>The platform's file operations on the three paths\<close>

definition readTextFile_lastChecked :: "env \<Rightarrow> 'cb world \<Rightarrow> error + string" where
  "readTextFile_lastChecked ev w =
     (if fails ev ReadLastChecked then Inl OtherIoError
      else case lastChecked_txt w of None \<Rightarrow> Inl NotFound | Some t \<Rightarrow> Inr t)"

definition readFile_db :: "env \<Rightarrow> 'cb world \<Rightarrow> error + bytes" where
  "readFile_db ev w =
     (if fails ev ReadDb then Inl OtherIoError
      else case db_mmdb w of None \<Rightarrow> Inl NotFound | Some b \<Rightarrow> Inr b)"

text \<open>
  \<open>Deno.create(tempPath)\<close> and the pipe of the entry into the file, taken as one step: the
  file holds the whole entry afterwards, or the step fails and leaves the file as it was.
\<close>

definition write_temp :: "env \<Rightarrow> bytes \<Rightarrow> 'cb world \<Rightarrow> (error + unit) \<times> 'cb world" where
  "write_temp ev content w =
     (let w1 = emit CreateTempFile w
      in if fails ev CreateTemp then (Inl OtherIoError, w1)
         else (Inr (), w1\<lparr>tempDb_mmdb := Some content\<rparr>))"

definition remove_db :: "env \<Rightarrow> 'cb world \<Rightarrow> (error + unit) \<times> 'cb world" where
  "remove_db ev w =
     (let w1 = emit RemoveDbFile w
      in if fails ev RemoveDb then (Inl OtherIoError, w1)
         else case db_mmdb w1 of
                None \<Rightarrow> (Inl NotFound, w1)
              | Some b \<Rightarrow> (Inr (), w1\<lparr>db_mmdb := None\<rparr>))"

definition rename_temp_to_db :: "env \<Rightarrow> 'cb world \<Rightarrow> (error + unit) \<times> 'cb world" where
  "rename_temp_to_db ev w =
     (let w1 = emit RenameTempToDb w
      in if fails ev RenameTemp then (Inl OtherIoError, w1)
         else case tempDb_mmdb w1 of
                None \<Rightarrow> (Inl NotFound, w1)
              | Some b \<Rightarrow> (Inr (), w1\<lparr>db_mmdb := Some b, tempDb_mmdb := None\<rparr>))"

definition writeTextFile_lastChecked ::
  "env \<Rightarrow> string \<Rightarrow> 'cb world \<Rightarrow> (error + unit) \<times> 'cb world" where
  "writeTextFile_lastChecked ev text w =
     (let w1 = emit (WriteLastCheckedFile text) w
      in if fails ev WriteLastChecked then (Inl OtherIoError, w1)
         else (Inr (), w1\<lparr>lastChecked_txt := Some text\<rparr>))"

subsection \<open>\<open>#maxMindRequest\<close>\<close>

text \<open>
  Lines 85 to 95. The edition and the licence key only shape the URL; a request is known
  by its suffix. A response whose status is not in 200..299 is thrown as an error that
  quotes the suffix and the status.
\<close>

definition response_ok :: "nat \<Rightarrow> bool" where
  "response_ok status \<longleftrightarrow> 200 \<le> status \<and> status \<le> 299"

definition maxMindRequest :: "string \<Rightarrow> 'b fetched \<Rightarrow> error + 'b option" where
  "maxMindRequest suffix r =
     (case r of
        Rejected \<Rightarrow> Inl FetchRejected
      | Response status body \<Rightarrow>
          if \<not> response_ok status
          then Inl (JsError (''Maxmind request to '' @ [CHR 0x22] @ suffix @ [CHR 0x22]
                       @ '' failed, status code was '' @ String_of_number status))
          else Inr body)"

text \<open>A request followed by the read of its body (\<open>text()\<close> or \<open>arrayBuffer()\<close>).\<close>

definition request_body :: "string \<Rightarrow> 'b fetched \<Rightarrow> error + 'b" where
  "request_body suffix r =
     (case maxMindRequest suffix r of
        Inl e \<Rightarrow> Inl e
      | Inr None \<Rightarrow> Inl FetchRejected
      | Inr (Some b) \<Rightarrow> Inr b)"

subsection \<open>\<open>#updateDb\<close>, lines 114 to 257\<close>

text \<open>
  Lines 115 to 130: the checkpoint. A missing file reads as the empty string, any other
  failure is thrown; text holding a non-digit after trimming is emptied; \<open>None\<close> is \<open>NaN\<close>.
\<close>

definition lastChecked_of_text :: "string \<Rightarrow> nat option" where
  "lastChecked_of_text text =
     (let lastCheckedStr = trim text;
          lastCheckedStr = (if list_ex (\<lambda>c. \<not> is_digit c) lastCheckedStr then [] else lastCheckedStr)
      in parseInt lastCheckedStr)"

definition read_lastChecked :: "env \<Rightarrow> 'cb world \<Rightarrow> error + nat option" where
  "read_lastChecked ev w =
     (case readTextFile_lastChecked ev w of
        Inl e \<Rightarrow> (if e = NotFound then Inr (lastChecked_of_text []) else Inl e)
      | Inr text \<Rightarrow> Inr (lastChecked_of_text text))"

text \<open>Lines 132 to 145: the digest of the artifact on disk, \<open>null\<close> when there is none.\<close>

definition read_localSha256 :: "env \<Rightarrow> 'cb world \<Rightarrow> error + string option" where
  "read_localSha256 ev w =
     (case readFile_db ev w of
        Inl e \<Rightarrow> (if e = NotFound then Inr None else Inl e)
      | Inr tarFile \<Rightarrow> Inr (Some (getSha256FromBuffer (digest ev) tarFile)))"

text \<open>Line 148: \<open>isNaN(lastChecked) || Date.now() - lastChecked > HASH_CHECK_UPDATE_INTERVAL_MS\<close>.\<close>

definition hash_check_due :: "env \<Rightarrow> nat option \<Rightarrow> bool" where
  "hash_check_due ev lastChecked =
     (case lastChecked of
        None \<Rightarrow> True
      | Some t \<Rightarrow> int (now_at_check ev) - int t > HASH_CHECK_UPDATE_INTERVAL_MS)"

text \<open>How a part of the function body ends: by \<open>throw\<close>, by \<open>return\<close>, or by going on.\<close>

datatype 'a completion = Throws error | Returns | Continues 'a

text \<open>Lines 147 to 160: the digest of the server, \<open>null\<close> when the hourly check is not due.\<close>

definition fetch_serverSha256 ::
  "config \<Rightarrow> env \<Rightarrow> nat option \<Rightarrow> 'cb world \<Rightarrow> string option completion \<times> 'cb world" where
  "fetch_serverSha256 cfg ev lastChecked w =
     (if hash_check_due ev lastChecked then
        (let w1 = emit (HttpGet ''tar.gz.sha256'') w
         in case request_body ''tar.gz.sha256'' (sha256_endpoint ev) of
              Inr hashText \<Rightarrow> (Continues (Some (serverSha256_of hashText)), w1)
            | Inl e \<Rightarrow> (if ignoreNetworkErrors cfg then (Returns, w1) else (Throws e, w1)))
      else (Continues None, w))"

text \<open>
  Lines 180 to 217: the loop over the entries of the archive, with \<open>dbBuffer\<close> and
  \<open>entryNames\<close> as its variables. The chunks of a matching entry go to the temporary file
  and, concatenated, to \<open>dbBuffer\<close>.
\<close>

fun read_entries ::
  "env \<Rightarrow> tar_entry list \<Rightarrow> bytes option \<Rightarrow> string list \<Rightarrow> 'cb world
     \<Rightarrow> (error + bytes option \<times> string list) \<times> 'cb world" where
  "read_entries ev [] dbBuffer entryNames w = (Inr (dbBuffer, entryNames), w)"
| "read_entries ev (entry # rest) dbBuffer entryNames w =
     (case readable entry of
        None \<Rightarrow> read_entries ev rest dbBuffer entryNames w
      | Some chunks \<Rightarrow>
          if \<not> endsWith (path entry) ''.mmdb''
          then read_entries ev rest dbBuffer (entryNames @ [path entry])
                 (emit (CancelEntry (path entry)) w)
          else (case write_temp ev (concat chunks) w of
                  (Inl e, w1) \<Rightarrow> (Inl e, w1)
                | (Inr u, w1) \<Rightarrow>
                    read_entries ev rest (Some (concat chunks)) (entryNames @ [path entry]) w1))"

definition extract_entries ::
  "env \<Rightarrow> bytes \<Rightarrow> 'cb world \<Rightarrow> (error + bytes option \<times> string list) \<times> 'cb world" where
  "extract_entries ev tarBuffer w =
     (case untar ev tarBuffer of
        (entries, broken) \<Rightarrow>
          (case read_entries ev entries None [] w of
             (Inl e, w1) \<Rightarrow> (Inl e, w1)
           | (Inr found, w1) \<Rightarrow> (if broken then (Inl StreamError, w1) else (Inr found, w1))))"

text \<open>Lines 220 to 224: the message of the error thrown when no entry matched.\<close>

definition no_mmdb_message :: "string list \<Rightarrow> string" where
  "no_mmdb_message entryNames =
     ''Failed to get MaxMind database from the tar response, no .mmdb file found. Only found:''
     @ [CHR 0x0A] @ join [CHR 0x0A] (map (\<lambda>e. '' - '' @ e) entryNames)"

text \<open>
  Lines 226 to 244: the replace window. A fresh promise is stored in \<open>#rewritePromise\<close>;
  the old file is removed (its absence is tolerated) and the temporary file renamed; the
  \<open>finally\<close> block resolves the promise and clears the field, whatever happened.
\<close>

definition open_window :: "'cb world \<Rightarrow> nat \<times> 'cb world" where
  "open_window w =
     (length (promises w),
      w\<lparr>rewritePromise := Some (length (promises w)), promises := promises w @ [False]\<rparr>)"

definition close_window :: "nat \<Rightarrow> 'cb world \<Rightarrow> 'cb world" where
  "close_window p w = w\<lparr>promises := (promises w)[p := True], rewritePromise := None\<rparr>"

definition remove_then_rename :: "env \<Rightarrow> 'cb world \<Rightarrow> (error + unit) \<times> 'cb world" where
  "remove_then_rename ev w =
     (case remove_db ev w of
        (Inl e, w1) \<Rightarrow> (if e = NotFound then rename_temp_to_db ev w1 else (Inl e, w1))
      | (Inr u, w1) \<Rightarrow> rename_temp_to_db ev w1)"

definition commit :: "env \<Rightarrow> 'cb world \<Rightarrow> (error + unit) \<times> 'cb world" where
  "commit ev w =
     (case open_window w of
        (p, w1) \<Rightarrow>
          (case remove_then_rename ev w1 of
             (r, w2) \<Rightarrow> (r, close_window p w2)))"

text \<open>
  Lines 248 to 253: every subscriber is called with the digest and the buffer, in the
  order of registration. A subscriber is taken to return normally.
\<close>

definition notify :: "'cb list \<Rightarrow> string \<Rightarrow> bytes \<Rightarrow> 'cb world \<Rightarrow> 'cb world" where
  "notify cbs sha256 buffer w = foldl (\<lambda>w' cb. emit (Callback cb sha256 buffer) w') w cbs"

definition log_if :: "bool \<Rightarrow> 'cb effect \<Rightarrow> 'cb world \<Rightarrow> 'cb world" where
  "log_if b e w = (if b then emit e w else w)"

text \<open>Lines 163 to 253: the body of the update branch.\<close>

definition download_and_replace ::
  "config \<Rightarrow> env \<Rightarrow> 'cb list \<Rightarrow> string \<Rightarrow> 'cb world \<Rightarrow> (error + unit) \<times> 'cb world" where
  "download_and_replace cfg ev cbs serverSha256 w =
     (let w1 = log_if (verbose cfg) (ConsoleLog ''Downloading new database from Maxmind servers.'') w;
          w2 = emit (HttpGet ''tar.gz'') w1
      in case request_body ''tar.gz'' (tar_endpoint ev) of
           Inl e \<Rightarrow> (Inl e, w2)
         | Inr tarBuffer \<Rightarrow>
             if getSha256FromBuffer (digest ev) tarBuffer \<noteq> serverSha256
             then (Inl (JsError ''Failed to download maxmind db, sha256 verification failed.''), w2)
             else (case extract_entries ev tarBuffer w2 of
                     (Inl e, w3) \<Rightarrow> (Inl e, w3)
                   | (Inr (dbBuffer, entryNames), w3) \<Rightarrow>
                       (case dbBuffer of
                          None \<Rightarrow> (Inl (JsError (no_mmdb_message entryNames)), w3)
                        | Some buffer \<Rightarrow>
                            (case commit ev w3 of
                               (Inl e, w4) \<Rightarrow> (Inl e, w4)
                             | (Inr u, w4) \<Rightarrow>
                                 (Inr (),
                                  notify cbs serverSha256 buffer
                                    (log_if (verbose cfg) (ConsoleLog ''Geoip db updated.'') w4))))))"

text \<open>
  Line 162, \<open>serverSha256 && serverSha256 != localSha256\<close>: \<open>null\<close> and the empty string
  are falsy; a string differs from \<open>null\<close>.
\<close>

definition update_needed :: "string option \<Rightarrow> string option \<Rightarrow> bool" where
  "update_needed serverSha256 localSha256 \<longleftrightarrow>
     (case serverSha256 of
        None \<Rightarrow> False
      | Some s \<Rightarrow> s \<noteq> [] \<and> Some s \<noteq> localSha256)"

definition updateDb ::
  "config \<Rightarrow> env \<Rightarrow> 'cb list \<Rightarrow> 'cb world \<Rightarrow> (error + unit) \<times> 'cb world" where
  "updateDb cfg ev cbs w =
     (case read_lastChecked ev w of
        Inl e \<Rightarrow> (Inl e, w)
      | Inr lastChecked \<Rightarrow>
          (case read_localSha256 ev w of
             Inl e \<Rightarrow> (Inl e, w)
           | Inr localSha256 \<Rightarrow>
               (case fetch_serverSha256 cfg ev lastChecked w of
                  (Throws e, w1) \<Rightarrow> (Inl e, w1)
                | (Returns, w1) \<Rightarrow> (Inr (), w1)
                | (Continues serverSha256, w1) \<Rightarrow>
                    (case (if update_needed serverSha256 localSha256
                           then download_and_replace cfg ev cbs (the serverSha256) w1
                           else (Inr (), w1)) of
                       (Inl e, w2) \<Rightarrow> (Inl e, w2)
                     | (Inr u, w2) \<Rightarrow>
                         writeTextFile_lastChecked ev (String_of_number (now_at_write ev)) w2))))"

section \<open>\<open>getDbBuffer\<close> and the replace window\<close>

text \<open>
  \<open>await x\<close> goes on at once for \<open>null\<close> and waits for a promise until it is resolved.
\<close>

definition settled :: "'cb world \<Rightarrow> nat option \<Rightarrow> bool" where
  "settled w awaited =
     (case awaited of
        None \<Rightarrow> True
      | Some p \<Rightarrow> p < length (promises w) \<and> promises w ! p)"

text \<open>
  A call of \<open>getDbBuffer\<close> (lines 269 to 280) first evaluates \<open>this.#rewritePromise\<close> and
  awaits that value; when the await is over it reads the file, returning \<open>null\<close> for a
  missing file and throwing any other error.
\<close>

datatype reader = AwaitingRewrite "nat option" | Returned "error + bytes option"

definition getDbBuffer_call :: "'cb world \<Rightarrow> reader" where
  "getDbBuffer_call w = AwaitingRewrite (rewritePromise w)"

definition getDbBuffer_read :: "env \<Rightarrow> 'cb world \<Rightarrow> error + bytes option" where
  "getDbBuffer_read ev w =
     (case readFile_db ev w of
        Inl e \<Rightarrow> (if e = NotFound then Inr None else Inl e)
      | Inr buffer \<Rightarrow> Inr (Some buffer))"

definition getDbBuffer_resume :: "env \<Rightarrow> 'cb world \<Rightarrow> reader \<Rightarrow> reader" where
  "getDbBuffer_resume ev w r =
     (case r of
        AwaitingRewrite awaited \<Rightarrow>
          (if settled w awaited then Returned (getDbBuffer_read ev w) else r)
      | Returned x \<Rightarrow> r)"

text \<open>
  The commit of lines 226 to 244 as the cycle runs it, one part between two awaits at a
  time: the window opens; \<open>Deno.remove\<close> takes effect; \<open>Deno.rename\<close> takes effect; the
  \<open>finally\<close> block runs.
\<close>

datatype committer =
    Staged
  | WindowOpen nat
  | OldRemoved nat
  | Leaving nat "error + unit"
  | Finished "error + unit"

fun commit_step :: "env \<Rightarrow> committer \<times> 'cb world \<Rightarrow> committer \<times> 'cb world" where
  "commit_step ev (Staged, w) = (case open_window w of (p, w1) \<Rightarrow> (WindowOpen p, w1))"
| "commit_step ev (WindowOpen p, w) =
     (case remove_db ev w of
        (Inl e, w1) \<Rightarrow> (if e = NotFound then (OldRemoved p, w1) else (Leaving p (Inl e), w1))
      | (Inr u, w1) \<Rightarrow> (OldRemoved p, w1))"
| "commit_step ev (OldRemoved p, w) =
     (case rename_temp_to_db ev w of (r, w1) \<Rightarrow> (Leaving p r, w1))"
| "commit_step ev (Leaving p r, w) = (Finished r, close_window p w)"
| "commit_step ev (Finished r, w) = (Finished r, w)"

text \<open>
  The commit and the calls of \<open>getDbBuffer\<close> (told apart by a number) interleave at the
  awaits.
\<close>

datatype io_event = CommitStep | CallGetDbBuffer nat | ResumeGetDbBuffer nat

record 'cb fetcher_run =
  store :: "'cb world"
  committing :: committer
  readers :: "nat \<rightharpoonup> reader"

definition io_step :: "env \<Rightarrow> 'cb fetcher_run \<Rightarrow> io_event \<Rightarrow> 'cb fetcher_run" where
  "io_step ev s e =
     (case e of
        CommitStep \<Rightarrow>
          (case commit_step ev (committing s, store s) of
             (c, w) \<Rightarrow> s\<lparr>store := w, committing := c\<rparr>)
      | CallGetDbBuffer i \<Rightarrow>
          (case readers s i of
             None \<Rightarrow> s\<lparr>readers := (readers s)(i \<mapsto> getDbBuffer_call (store s))\<rparr>
           | Some r \<Rightarrow> s)
      | ResumeGetDbBuffer i \<Rightarrow>
          (case readers s i of
             None \<Rightarrow> s
           | Some r \<Rightarrow> s\<lparr>readers := (readers s)(i \<mapsto> getDbBuffer_resume ev (store s) r)\<rparr>))"

definition io_run :: "env \<Rightarrow> io_event list \<Rightarrow> 'cb fetcher_run \<Rightarrow> 'cb fetcher_run" where
  "io_run ev es s = foldl (io_step ev) s es"

section \<open>The re-entrancy guard\<close>

text \<open>
  \<open>#updateDbIfNotRunning\<close> (lines 97 to 107) is the only caller of \<open>#updateDb\<close>; the
  constructor and the timer call it. Besides the flag, the state counts the executions
  of \<open>#updateDb\<close> that have started and those that have not settled yet.
\<close>

record scheduler =
  updateIsRunning :: bool
  cycles_in_flight :: nat
  cycles_started :: nat

text \<open>Lines 100 to 103, up to the await: the guard, the flag and the call of \<open>#updateDb\<close>.\<close>

definition updateDbIfNotRunning_enter :: "scheduler \<Rightarrow> scheduler" where
  "updateDbIfNotRunning_enter s =
     (if updateIsRunning s then s
      else s\<lparr>updateIsRunning := True,
             cycles_in_flight := Suc (cycles_in_flight s),
             cycles_started := Suc (cycles_started s)\<rparr>)"

text \<open>
  Lines 104 to 106: the \<open>finally\<close> block, run when the awaited \<open>#updateDb\<close> settles, with
  a result or with an error.
\<close>

definition updateDbIfNotRunning_finally :: "error + unit \<Rightarrow> scheduler \<Rightarrow> scheduler" where
  "updateDbIfNotRunning_finally outcome s =
     (if cycles_in_flight s = 0 then s
      else s\<lparr>updateIsRunning := False, cycles_in_flight := cycles_in_flight s - 1\<rparr>)"

datatype sched_event = Trigger | CycleSettles "error + unit"

fun sched_step :: "scheduler \<Rightarrow> sched_event \<Rightarrow> scheduler" where
  "sched_step s Trigger = updateDbIfNotRunning_enter s"
| "sched_step s (CycleSettles outcome) = updateDbIfNotRunning_finally outcome s"

definition sched_run :: "sched_event list \<Rightarrow> scheduler \<Rightarrow> scheduler" where
  "sched_run es s = foldl sched_step s es"

definition new_scheduler :: scheduler where
  "new_scheduler = \<lparr>updateIsRunning = False, cycles_in_flight = 0, cycles_started = 0\<rparr>"

section \<open>\<open>LiveMaxMindDb\<close>: the loaded database and its lookups\<close>

text \<open>
  The class with the lookup counts (\<open>#loadDb\<close>, \<open>#tryFreeDb\<close> and \<open>#useDb\<close>, lines 58 to
  107 of the file that holds it). An instance of \<open>Maxmind\<close> is known by its number: the
  \<open>n\<close>-th instance constructed has number \<open>n\<close>, counted from 0, and the constructor is
  taken to succeed. \<open>#dbPromise\<close> is either the promise created with the object, which the
  first load resolves, or \<open>Promise.resolve(db)\<close>.
\<close>

datatype db_promise = InitialPromise | PromiseResolve nat

text \<open>
  A call of \<open>#useDb\<close> waits at \<open>await this.#dbPromise\<close> (line 91) with the promise it has
  read, and later inside \<open>fn(db)\<close> (line 95) with the instance it was given.
\<close>

datatype lookup = AwaitingDb db_promise | InFn nat

record handle =
  db :: "nat option"
  initialPromiseResolved :: bool
  initialPromiseValue :: "nat option"
  dbPromise :: db_promise
  pendingDbLookups :: "nat \<rightharpoonup> int"
  discardedDbs :: "nat set"
  instances :: "bytes list"
  freed :: "nat list"
  queried :: "(nat \<times> nat) list"
  lookups :: "nat \<rightharpoonup> lookup"

text \<open>
  Of the fields above, \<open>instances\<close> (the buffers given to the constructor), \<open>freed\<close> (the
  calls of \<open>free()\<close>, in their order), \<open>queried\<close> (the calls of a lookup method of the
  engine: which call of \<open>#useDb\<close>, on which instance) and \<open>lookups\<close> (the calls of
  \<open>#useDb\<close> under way) describe the engine and the callers; the others are the fields of
  the class.
\<close>

definition new_handle :: handle where
  "new_handle =
     \<lparr>db = None, initialPromiseResolved = False, initialPromiseValue = None,
      dbPromise = InitialPromise, pendingDbLookups = Map.empty, discardedDbs = {},
      instances = [], freed = [], queried = [], lookups = Map.empty\<rparr>"

text \<open>\<open>this.#pendingDbLookups.get(db) || 0\<close>.\<close>

definition pending_of :: "handle \<Rightarrow> nat \<Rightarrow> int" where
  "pending_of h d =
     (case pendingDbLookups h d of
        None \<Rightarrow> 0
      | Some n \<Rightarrow> (if n = 0 then 0 else n))"

text \<open>\<open>#tryFreeDb\<close>: \<open>free()\<close> is called; what it throws is caught and logged.\<close>

definition tryFreeDb :: "nat \<Rightarrow> handle \<Rightarrow> handle" where
  "tryFreeDb d h = h\<lparr>freed := freed h @ [d]\<rparr>"

text \<open>\<open>#loadDb\<close>, lines 58 to 75.\<close>

definition loadDb :: "bytes \<Rightarrow> handle \<Rightarrow> handle" where
  "loadDb dbBuffer h =
     (let h1 = (case db h of
                  None \<Rightarrow> h
                | Some d \<Rightarrow>
                    (if pending_of h d > 0
                     then h\<lparr>discardedDbs := insert d (discardedDbs h)\<rparr>
                     else tryFreeDb d h));
          new = length (instances h1);
          h2 = h1\<lparr>instances := instances h1 @ [dbBuffer], db := Some new\<rparr>
      in if \<not> initialPromiseResolved h2
         then h2\<lparr>initialPromiseValue := Some new, initialPromiseResolved := True\<rparr>
         else h2\<lparr>dbPromise := PromiseResolve new\<rparr>)"

text \<open>The value an awaited promise delivers, \<open>None\<close> while it is pending.\<close>

definition promise_value :: "handle \<Rightarrow> db_promise \<Rightarrow> nat option" where
  "promise_value h p =
     (case p of
        InitialPromise \<Rightarrow> initialPromiseValue h
      | PromiseResolve d \<Rightarrow> Some d)"

text \<open>Line 91, up to the await: the call reads \<open>this.#dbPromise\<close>.\<close>

definition useDb_call :: "nat \<Rightarrow> handle \<Rightarrow> handle" where
  "useDb_call l h =
     (case lookups h l of
        None \<Rightarrow> h\<lparr>lookups := (lookups h)(l \<mapsto> AwaitingDb (dbPromise h))\<rparr>
      | Some x \<Rightarrow> h)"

text \<open>
  Lines 91 to 95, from the end of the await to the await inside \<open>fn\<close>: the count of the
  instance goes up and \<open>fn\<close> calls the lookup method of the instance.
\<close>

definition useDb_resume :: "nat \<Rightarrow> handle \<Rightarrow> handle" where
  "useDb_resume l h =
     (case lookups h l of
        Some (AwaitingDb p) \<Rightarrow>
          (case promise_value h p of
             None \<Rightarrow> h
           | Some d \<Rightarrow>
               h\<lparr>pendingDbLookups := (pendingDbLookups h)(d \<mapsto> pending_of h d + 1),
                 queried := queried h @ [(l, d)],
                 lookups := (lookups h)(l \<mapsto> InFn d)\<rparr>)
      | Some (InFn d) \<Rightarrow> h
      | None \<Rightarrow> h)"

text \<open>Lines 96 to 106: the \<open>finally\<close> block, when \<open>fn\<close> has settled.\<close>

definition useDb_finally :: "nat \<Rightarrow> handle \<Rightarrow> handle" where
  "useDb_finally l h =
     (case lookups h l of
        Some (InFn d) \<Rightarrow>
          (let newPending = pending_of h d - 1;
               h1 = h\<lparr>pendingDbLookups := (pendingDbLookups h)(d \<mapsto> newPending)\<rparr>;
               h2 = (if newPending \<le> 0
                     then (if d \<in> discardedDbs h1
                           then (tryFreeDb d h1)\<lparr>discardedDbs := discardedDbs h1 - {d}\<rparr>
                           else h1)
                     else h1)
           in h2\<lparr>lookups := (lookups h2)(l := None)\<rparr>)
      | Some (AwaitingDb p) \<Rightarrow> h
      | None \<Rightarrow> h)"

datatype handle_event = LoadDb bytes | CallUseDb nat | ResumeUseDb nat | SettleUseDb nat

fun handle_step :: "handle \<Rightarrow> handle_event \<Rightarrow> handle" where
  "handle_step h (LoadDb dbBuffer) = loadDb dbBuffer h"
| "handle_step h (CallUseDb l) = useDb_call l h"
| "handle_step h (ResumeUseDb l) = useDb_resume l h"
| "handle_step h (SettleUseDb l) = useDb_finally l h"

definition handle_run :: "handle_event list \<Rightarrow> handle \<Rightarrow> handle" where
  "handle_run es h = foldl handle_step h es"

text \<open>
  The earlier form of the class (the file \<open>LiveMaxMindDb.ts\<close>) keeps no counts: \<open>#loadDb\<close>
  (lines 46 to 58) frees the previous instance at once, and a lookup (lines 63 to 65) calls
  the lookup method of the instance as soon as its await of \<open>#dbPromise\<close> is over.
\<close>

definition loadDb_uncounted :: "bytes \<Rightarrow> handle \<Rightarrow> handle" where
  "loadDb_uncounted dbBuffer h =
     (let h1 = (case db h of
                  None \<Rightarrow> h
                | Some d \<Rightarrow> h\<lparr>freed := freed h @ [d]\<rparr>);
          new = length (instances h1);
          h2 = h1\<lparr>instances := instances h1 @ [dbBuffer], db := Some new\<rparr>
      in if \<not> initialPromiseResolved h2
         then h2\<lparr>initialPromiseValue := Some new, initialPromiseResolved := True\<rparr>
         else h2\<lparr>dbPromise := PromiseResolve new\<rparr>)"

definition lookup_resume_uncounted :: "nat \<Rightarrow> handle \<Rightarrow> handle" where
  "lookup_resume_uncounted l h =
     (case lookups h l of
        Some (AwaitingDb p) \<Rightarrow>
          (case promise_value h p of
             None \<Rightarrow> h
           | Some d \<Rightarrow> h\<lparr>queried := queried h @ [(l, d)], lookups := (lookups h)(l := None)\<rparr>)
      | Some (InFn d) \<Rightarrow> h
      | None \<Rightarrow> h)"

text \<open>
  What holds of the handle after every sequence of events: no instance was freed twice, a
  freed instance is not waiting to be freed, every instance freed or set aside exists,
  and the current instance exists and is neither freed nor set aside.
\<close>

definition handle_ok :: "handle \<Rightarrow> bool" where
  "handle_ok h \<longleftrightarrow>
     distinct (freed h)
   \<and> set (freed h) \<inter> discardedDbs h = {}
   \<and> (\<forall>d \<in> set (freed h) \<union> discardedDbs h. d < length (instances h))
   \<and> (case db h of
        None \<Rightarrow> True
      | Some d \<Rightarrow> d \<notin> set (freed h) \<and> d \<notin> discardedDbs h \<and> d < length (instances h))"

section \<open>Concrete inputs\<close>

text \<open>
  A small environment on which the theorems below are exercised: the hash is the identity,
  the archive holds the single entry \<open>GeoLite2-Country.csv\<close>, the server declares the
  digest \<open>abc1\<close> and serves the two bytes \<open>ab c1\<close>, and no file operation fails. The
  storage directory is empty and no promise has been created.
\<close>

definition example_config :: config where
  "example_config = \<lparr>ignoreNetworkErrors = False, verbose = False\<rparr>"

definition example_env :: env where
  "example_env =
     \<lparr>digest = (\<lambda>b. b),
      untar = (\<lambda>b. ([TarEntry ''GeoLite2-Country.csv'' (Some [[1, 2]])], False)),
      sha256_endpoint = Response 200 (Some ''abc1  GeoLite2-Country.tar.gz''),
      tar_endpoint = Response 200 (Some [0xab, 0xc1]),
      now_at_check = 1700000000000,
      now_at_write = 1700000000500,
      fails = (\<lambda>operation. False)\<rparr>"

definition empty_world :: "nat world" where
  "empty_world =
     \<lparr>lastChecked_txt = None, db_mmdb = None, tempDb_mmdb = None,
      rewritePromise = None, promises = [], effects = []\<rparr>"

text \<open>
  An archive as the server ships it, but for the database: a directory entry, which has
  no stream, and three files.
\<close>

definition example_archive :: "tar_entry list" where
  "example_archive =
     [TarEntry ''GeoLite2-Country_20240101/'' None,
      TarEntry ''COPYRIGHT.txt'' (Some [[1]]),
      TarEntry ''LICENSE.txt'' (Some []),
      TarEntry ''GeoLite2-Country.csv'' (Some [[1, 2]])]"

section \<open>Properties of the check cycle\<close>

subsection \<open>The digest of the server\<close>

lemma split_on_first: "split_on sep s = takeWhile (\<lambda>c. c \<noteq> sep) s # tl (split_on sep s)"
  by (induction s) (auto split: list.splits)

lemma serverSha256_of_leading_space:
  "body = [] \<or> (body \<noteq> [] \<and> hd body = CHR '' '') \<Longrightarrow> serverSha256_of body = []"
  by (cases body) (auto simp: serverSha256_of_def split: list.splits)

text \<open>
  C8, as the code has it: the digest taken from the body of the \<open>.sha256\<close> response is
  the prefix of the body up to its first space character (U+0020). No other white space
  ends it.
\<close>

theorem serverSha256_is_prefix_before_first_space:
  "serverSha256_of body = takeWhile (\<lambda>c. c \<noteq> CHR '' '') body"
proof -
  obtain ts where "split_on CHR '' '' body = takeWhile (\<lambda>c. c \<noteq> CHR '' '') body # ts"
    using split_on_first by blast
  then show ?thesis by (simp add: serverSha256_of_def)
qed

text \<open>
  C8 as the specification words it fails on a body that ends its digest with a line feed
  and holds no space: the code keeps the line feed in the digest, the first
  whitespace-delimited token does not have it.
\<close>

theorem serverSha256_keeps_line_feed:
  "serverSha256_of (''abc1'' @ [CHR 0x0A]) = ''abc1'' @ [CHR 0x0A]
   \<and> spec_first_whitespace_token (''abc1'' @ [CHR 0x0A]) = ''abc1''
   \<and> serverSha256_of (''abc1'' @ [CHR 0x0A]) \<noteq> spec_first_whitespace_token (''abc1'' @ [CHR 0x0A])"
  by (simp add: serverSha256_of_def spec_first_whitespace_token_def js_whitespace_def)

subsection \<open>Steps shared by the theorems on \<open>updateDb\<close>\<close>

lemma fetch_serverSha256_fetched:
  assumes "fetch_serverSha256 cfg ev lastChecked w = (Continues (Some s), w1)"
  shows "w1 = emit (HttpGet ''tar.gz.sha256'') w"
  using assms by (auto simp: fetch_serverSha256_def Let_def split: if_splits sum.splits)

lemma updateDb_without_update:
  assumes "read_lastChecked ev w = Inr lastChecked"
      and "read_localSha256 ev w = Inr localSha256"
      and "fetch_serverSha256 cfg ev lastChecked w = (Continues serverSha256, w1)"
      and "\<not> update_needed serverSha256 localSha256"
  shows "updateDb cfg ev cbs w = writeTextFile_lastChecked ev (String_of_number (now_at_write ev)) w1"
  using assms by (simp add: updateDb_def)

lemma updateDb_with_update:
  assumes "read_lastChecked ev w = Inr lastChecked"
      and "read_localSha256 ev w = Inr localSha256"
      and "fetch_serverSha256 cfg ev lastChecked w = (Continues (Some serverSha256), w1)"
      and "update_needed (Some serverSha256) localSha256"
      and "download_and_replace cfg ev cbs serverSha256 w1 = (Inl e, w2)"
  shows "updateDb cfg ev cbs w = (Inl e, w2)"
  using assms by (simp add: updateDb_def)

lemma writeTextFile_lastChecked_effects:
  "effects (snd (writeTextFile_lastChecked ev t w)) = effects w @ [WriteLastCheckedFile t]"
  by (simp add: writeTextFile_lastChecked_def emit_def Let_def)

lemma writeTextFile_lastChecked_db:
  "db_mmdb (snd (writeTextFile_lastChecked ev t w)) = db_mmdb w"
  by (simp add: writeTextFile_lastChecked_def emit_def Let_def)

lemma writeTextFile_lastChecked_done:
  "\<not> fails ev WriteLastChecked \<Longrightarrow>
     fst (writeTextFile_lastChecked ev t w) = Inr ()
   \<and> lastChecked_txt (snd (writeTextFile_lastChecked ev t w)) = Some t"
  by (simp add: writeTextFile_lastChecked_def emit_def Let_def)

lemmas example_simps =
  example_config_def example_env_def empty_world_def
  read_lastChecked_def readTextFile_lastChecked_def lastChecked_of_text_def trim_def parseInt_def
  read_localSha256_def readFile_db_def getSha256FromBuffer_def byte_to_hex_def hex_digit_def
  fetch_serverSha256_def hash_check_due_def request_body_def maxMindRequest_def response_ok_def
  serverSha256_of_def update_needed_def emit_def

lemma String_of_number_example: "String_of_number 1700000000500 = ''1700000000500''"
  by (simp add: String_of_number.simps digit_char_def)

subsection \<open>A download that fails verification\<close>

text \<open>
  C3: when the digest of the downloaded bytes differs from the digest the server declared,
  the cycle throws the verification error and \<open>db.mmdb\<close> is as before; the only calls
  made are the two requests (and the log line of a verbose fetcher).
\<close>

theorem updateDb_sha256_mismatch:
  assumes "read_lastChecked ev w = Inr lastChecked"
      and "read_localSha256 ev w = Inr localSha256"
      and "fetch_serverSha256 cfg ev lastChecked w = (Continues (Some serverSha256), w1)"
      and "update_needed (Some serverSha256) localSha256"
      and "request_body ''tar.gz'' (tar_endpoint ev) = Inr tarBuffer"
      and "getSha256FromBuffer (digest ev) tarBuffer \<noteq> serverSha256"
  shows "fst (updateDb cfg ev cbs w) =
           Inl (JsError ''Failed to download maxmind db, sha256 verification failed.'')
       \<and> db_mmdb (snd (updateDb cfg ev cbs w)) = db_mmdb w
       \<and> effects (snd (updateDb cfg ev cbs w)) =
           effects w @ [HttpGet ''tar.gz.sha256'']
           @ (if verbose cfg then [ConsoleLog ''Downloading new database from Maxmind servers.''] else [])
           @ [HttpGet ''tar.gz'']"
proof -
  define w2 where "w2 = emit (HttpGet ''tar.gz'')
    (log_if (verbose cfg) (ConsoleLog ''Downloading new database from Maxmind servers.'') w1)"
  have w1: "w1 = emit (HttpGet ''tar.gz.sha256'') w"
    using assms(3) by (rule fetch_serverSha256_fetched)
  have "download_and_replace cfg ev cbs serverSha256 w1 =
      (Inl (JsError ''Failed to download maxmind db, sha256 verification failed.''), w2)"
    using assms(5,6) by (simp add: download_and_replace_def Let_def w2_def)
  then have u: "updateDb cfg ev cbs w =
      (Inl (JsError ''Failed to download maxmind db, sha256 verification failed.''), w2)"
    by (rule updateDb_with_update[OF assms(1-4)])
  show ?thesis unfolding u by (simp add: w2_def w1 emit_def log_if_def)
qed

theorem updateDb_sha256_mismatch_witness:
  "getSha256FromBuffer (digest (example_env\<lparr>tar_endpoint := Response 200 (Some [0xab, 0xc2])\<rparr>)) [0xab, 0xc2] = ''abc2''
   \<and> fst (updateDb example_config (example_env\<lparr>tar_endpoint := Response 200 (Some [0xab, 0xc2])\<rparr>) [0]
        (empty_world\<lparr>db_mmdb := Some [7]\<rparr>)) =
       Inl (JsError ''Failed to download maxmind db, sha256 verification failed.'')
   \<and> db_mmdb (snd (updateDb example_config (example_env\<lparr>tar_endpoint := Response 200 (Some [0xab, 0xc2])\<rparr>) [0]
        (empty_world\<lparr>db_mmdb := Some [7]\<rparr>))) = Some [7]"
proof -
  define ev where "ev = example_env\<lparr>tar_endpoint := Response 200 (Some [0xab, 0xc2])\<rparr>"
  define w where "w = empty_world\<lparr>db_mmdb := Some [7]\<rparr>"
  have h1: "read_lastChecked ev w = Inr None"
    by (simp add: ev_def w_def example_simps)
  have h2: "read_localSha256 ev w = Inr (Some ''07'')"
    by (simp add: ev_def w_def example_simps)
  have h3: "fetch_serverSha256 example_config ev None w =
              (Continues (Some ''abc1''), emit (HttpGet ''tar.gz.sha256'') w)"
    by (simp add: ev_def w_def example_simps)
  have h4: "update_needed (Some ''abc1'') (Some ''07'')"
    by (simp add: update_needed_def)
  have h5: "request_body ''tar.gz'' (tar_endpoint ev) = Inr [0xab, 0xc2]"
    by (simp add: ev_def example_simps)
  have h6: "getSha256FromBuffer (digest ev) [0xab, 0xc2] = ''abc2''"
    by (simp add: ev_def example_simps)
  have h6': "getSha256FromBuffer (digest ev) [0xab, 0xc2] \<noteq> ''abc1''"
    by (simp add: h6)
  show ?thesis
    using updateDb_sha256_mismatch[OF h1 h2 h3 h4 h5 h6', of "[0]"] h6
    by (simp add: ev_def[symmetric] w_def[symmetric]) (simp add: w_def empty_world_def)
qed

subsection \<open>Cycles that skip the update\<close>

text \<open>
  C4: when the digest fetched from the server equals the digest of the artifact on disk,
  the cycle makes exactly two calls, the request for the digest and the write of the
  checkpoint with the time read at that moment: no request for the archive, no file
  operation on \<open>db.mmdb\<close> (which is as before), no call of a subscriber. Unless the
  write itself is rejected, the cycle ends normally and the checkpoint holds that time.
\<close>

theorem updateDb_equal_digests:
  assumes "read_lastChecked ev w = Inr lastChecked"
      and "read_localSha256 ev w = Inr (Some localSha256)"
      and "fetch_serverSha256 cfg ev lastChecked w = (Continues (Some serverSha256), w1)"
      and "serverSha256 = localSha256"
  shows "effects (snd (updateDb cfg ev cbs w)) =
           effects w @ [HttpGet ''tar.gz.sha256'',
                        WriteLastCheckedFile (String_of_number (now_at_write ev))]
       \<and> db_mmdb (snd (updateDb cfg ev cbs w)) = db_mmdb w
       \<and> (\<not> fails ev WriteLastChecked \<longrightarrow>
            fst (updateDb cfg ev cbs w) = Inr ()
          \<and> lastChecked_txt (snd (updateDb cfg ev cbs w)) =
              Some (String_of_number (now_at_write ev)))"
proof -
  have w1: "w1 = emit (HttpGet ''tar.gz.sha256'') w"
    using assms(3) by (rule fetch_serverSha256_fetched)
  have "\<not> update_needed (Some serverSha256) (Some localSha256)"
    using assms(4) by (simp add: update_needed_def)
  then have u: "updateDb cfg ev cbs w =
      writeTextFile_lastChecked ev (String_of_number (now_at_write ev)) w1"
    by (rule updateDb_without_update[OF assms(1-3)])
  show ?thesis
    unfolding u
    by (simp add: writeTextFile_lastChecked_effects writeTextFile_lastChecked_db
        writeTextFile_lastChecked_done w1 emit_def)
qed

theorem updateDb_equal_digests_witness:
  "read_localSha256 example_env (empty_world\<lparr>db_mmdb := Some [0xab, 0xc1]\<rparr>) = Inr (Some ''abc1'')
   \<and> effects (snd (updateDb example_config example_env [0] (empty_world\<lparr>db_mmdb := Some [0xab, 0xc1]\<rparr>))) =
       [HttpGet ''tar.gz.sha256'', WriteLastCheckedFile ''1700000000500'']
   \<and> db_mmdb (snd (updateDb example_config example_env [0] (empty_world\<lparr>db_mmdb := Some [0xab, 0xc1]\<rparr>))) =
       Some [0xab, 0xc1]
   \<and> fst (updateDb example_config example_env [0] (empty_world\<lparr>db_mmdb := Some [0xab, 0xc1]\<rparr>)) = Inr ()
   \<and> lastChecked_txt (snd (updateDb example_config example_env [0] (empty_world\<lparr>db_mmdb := Some [0xab, 0xc1]\<rparr>))) =
       Some ''1700000000500''"
proof -
  define w where "w = empty_world\<lparr>db_mmdb := Some [0xab, 0xc1]\<rparr>"
  have h1: "read_lastChecked example_env w = Inr None"
    by (simp add: w_def example_simps)
  have h2: "read_localSha256 example_env w = Inr (Some ''abc1'')"
    by (simp add: w_def example_simps)
  have h3: "fetch_serverSha256 example_config example_env None w =
              (Continues (Some ''abc1''), emit (HttpGet ''tar.gz.sha256'') w)"
    by (simp add: w_def example_simps)
  have h4: "''abc1'' = ''abc1''" by simp
  have f: "\<not> fails example_env WriteLastChecked" "now_at_write example_env = 1700000000500"
    by (simp_all add: example_env_def)
  show ?thesis
    using updateDb_equal_digests[OF h1 h2 h3 h4, of "[0]"] h2 f
    by (simp add: w_def[symmetric] String_of_number_example) (simp add: w_def empty_world_def)
qed

text \<open>
  C10: when the \<open>.sha256\<close> request succeeds with an empty body, or with a body that starts
  with a space, the digest of the server is the empty string and the update branch is
  skipped, whatever the digest of the local artifact, also when there is none: the cycle
  makes exactly two calls, the request for the digest and the write of the checkpoint;
  \<open>db.mmdb\<close> is as before; unless the write is rejected, the cycle ends normally with the
  checkpoint written.
\<close>

theorem updateDb_empty_server_digest:
  assumes "read_lastChecked ev w = Inr lastChecked"
      and "read_localSha256 ev w = Inr localSha256"
      and "hash_check_due ev lastChecked"
      and "sha256_endpoint ev = Response status (Some body)"
      and "response_ok status"
      and "body = [] \<or> (body \<noteq> [] \<and> hd body = CHR '' '')"
  shows "fetch_serverSha256 cfg ev lastChecked w =
           (Continues (Some []), emit (HttpGet ''tar.gz.sha256'') w)
       \<and> effects (snd (updateDb cfg ev cbs w)) =
           effects w @ [HttpGet ''tar.gz.sha256'',
                        WriteLastCheckedFile (String_of_number (now_at_write ev))]
       \<and> db_mmdb (snd (updateDb cfg ev cbs w)) = db_mmdb w
       \<and> (\<not> fails ev WriteLastChecked \<longrightarrow>
            fst (updateDb cfg ev cbs w) = Inr ()
          \<and> lastChecked_txt (snd (updateDb cfg ev cbs w)) =
              Some (String_of_number (now_at_write ev)))"
proof -
  have e: "serverSha256_of body = []"
    using assms(6) by (rule serverSha256_of_leading_space)
  have f: "fetch_serverSha256 cfg ev lastChecked w =
      (Continues (Some []), emit (HttpGet ''tar.gz.sha256'') w)"
    using assms(3,4,5) e
    by (simp add: fetch_serverSha256_def request_body_def maxMindRequest_def Let_def)
  have "\<not> update_needed (Some []) localSha256"
    by (simp add: update_needed_def)
  then have u: "updateDb cfg ev cbs w =
      writeTextFile_lastChecked ev (String_of_number (now_at_write ev))
        (emit (HttpGet ''tar.gz.sha256'') w)"
    by (rule updateDb_without_update[OF assms(1,2) f])
  show ?thesis
    unfolding u using f
    by (simp add: writeTextFile_lastChecked_effects writeTextFile_lastChecked_db
        writeTextFile_lastChecked_done emit_def)
qed

theorem updateDb_empty_server_digest_witness:
  "db_mmdb empty_world = None
   \<and> effects (snd (updateDb example_config
        (example_env\<lparr>sha256_endpoint := Response 200 (Some '' abc1'')\<rparr>) [0] empty_world)) =
       [HttpGet ''tar.gz.sha256'', WriteLastCheckedFile ''1700000000500'']
   \<and> db_mmdb (snd (updateDb example_config
        (example_env\<lparr>sha256_endpoint := Response 200 (Some '' abc1'')\<rparr>) [0] empty_world)) = None
   \<and> fst (updateDb example_config
        (example_env\<lparr>sha256_endpoint := Response 200 (Some '' abc1'')\<rparr>) [0] empty_world) = Inr ()
   \<and> lastChecked_txt (snd (updateDb example_config
        (example_env\<lparr>sha256_endpoint := Response 200 (Some '' abc1'')\<rparr>) [0] empty_world)) =
       Some ''1700000000500''"
proof -
  define ev where "ev = example_env\<lparr>sha256_endpoint := Response 200 (Some '' abc1'')\<rparr>"
  have h1: "read_lastChecked ev empty_world = Inr None"
    by (simp add: ev_def example_simps)
  have h2: "read_localSha256 ev empty_world = Inr None"
    by (simp add: ev_def example_simps)
  have h3: "hash_check_due ev None"
    by (simp add: hash_check_due_def)
  have h4: "sha256_endpoint ev = Response 200 (Some '' abc1'')"
    by (simp add: ev_def)
  have h5: "response_ok 200"
    by (simp add: response_ok_def)
  have h6: "'' abc1'' = [] \<or> ('' abc1'' \<noteq> [] \<and> hd '' abc1'' = CHR '' '')"
    by simp
  have f: "\<not> fails ev WriteLastChecked" "now_at_write ev = 1700000000500"
    by (simp_all add: ev_def example_env_def)
  show ?thesis
    using updateDb_empty_server_digest[OF h1 h2 h3 h4 h5 h6, of example_config "[0]"] f
    by (simp add: ev_def[symmetric] String_of_number_example) (simp add: empty_world_def)
qed

subsection \<open>An archive without a database\<close>

lemma read_entries_without_mmdb:
  assumes "\<forall>e \<in> set es. \<not> endsWith (path e) ''.mmdb''"
  shows "fst (read_entries ev es dbBuffer names w) =
           Inr (dbBuffer, names @ map path (filter (\<lambda>e. readable e \<noteq> None) es))
       \<and> db_mmdb (snd (read_entries ev es dbBuffer names w)) = db_mmdb w"
  using assms
proof (induction es arbitrary: names w)
  case Nil
  then show ?case by simp
next
  case (Cons e es)
  then show ?case by (cases "readable e") (simp_all add: emit_def)
qed

text \<open>
  The text that \<open>join\<close> builds behind a separator: every element, each with the separator
  in front of it.
\<close>

lemma join_after_separator:
  "xs \<noteq> [] \<Longrightarrow> sep @ join sep xs = concat (map (\<lambda>x. sep @ x) xs)"
  by (induction sep xs rule: join.induct) simp_all

text \<open>
  The message of lines 220 to 224, written out: the introduction, then for every name a
  line feed, the three characters \<open>" - "\<close> and the name; after the introduction of an
  empty list there is the line feed alone.
\<close>

lemma no_mmdb_message_text:
  "no_mmdb_message names =
     ''Failed to get MaxMind database from the tar response, no .mmdb file found. Only found:''
     @ (if names = [] then [CHR 0x0A]
        else concat (map (\<lambda>name. CHR 0x0A # '' - '' @ name) names))"
proof (cases "names = []")
  case True
  then show ?thesis by (simp add: no_mmdb_message_def)
next
  case False
  then have "[CHR 0x0A] @ join [CHR 0x0A] (map (\<lambda>e. '' - '' @ e) names) =
      concat (map (\<lambda>x. [CHR 0x0A] @ x) (map (\<lambda>e. '' - '' @ e) names))"
    by (intro join_after_separator) simp
  with False show ?thesis
    by (simp add: no_mmdb_message_def comp_def)
qed

text \<open>
  C9: when the verified archive decodes to its end without an entry whose name ends in
  \<open>.mmdb\<close>, the cycle throws an error and \<open>db.mmdb\<close> is as before. The message of the
  error is the sentence
  \<open>Failed to get MaxMind database from the tar response, no .mmdb file found. Only found:\<close>
  followed, for every entry of the archive that carried a stream and in the order of the
  archive, by a line feed, the characters \<open>" - "\<close> and the name of the entry (by a single
  line feed when no entry carried a stream). For the archive whose single entry is
  \<open>GeoLite2-Country.csv\<close> the message ends with the one line \<open>" - GeoLite2-Country.csv"\<close>.
\<close>

theorem updateDb_no_mmdb_entry:
  assumes "read_lastChecked ev w = Inr lastChecked"
      and "read_localSha256 ev w = Inr localSha256"
      and "fetch_serverSha256 cfg ev lastChecked w = (Continues (Some serverSha256), w1)"
      and "update_needed (Some serverSha256) localSha256"
      and "request_body ''tar.gz'' (tar_endpoint ev) = Inr tarBuffer"
      and "getSha256FromBuffer (digest ev) tarBuffer = serverSha256"
      and "untar ev tarBuffer = (entries, False)"
      and "\<forall>e \<in> set entries. \<not> endsWith (path e) ''.mmdb''"
  shows "fst (updateDb cfg ev cbs w) =
           Inl (JsError
             (''Failed to get MaxMind database from the tar response, no .mmdb file found. Only found:''
              @ (if filter (\<lambda>e. readable e \<noteq> None) entries = [] then [CHR 0x0A]
                 else concat (map (\<lambda>e. CHR 0x0A # '' - '' @ path e)
                                (filter (\<lambda>e. readable e \<noteq> None) entries)))))
       \<and> db_mmdb (snd (updateDb cfg ev cbs w)) = db_mmdb w
       \<and> (\<forall>chunks. entries = [TarEntry ''GeoLite2-Country.csv'' (Some chunks)] \<longrightarrow>
            fst (updateDb cfg ev cbs w) =
              Inl (JsError
                (''Failed to get MaxMind database from the tar response, no .mmdb file found. Only found:''
                 @ [CHR 0x0A] @ '' - GeoLite2-Country.csv'')))"
proof -
  define w2 where "w2 = emit (HttpGet ''tar.gz'')
    (log_if (verbose cfg) (ConsoleLog ''Downloading new database from Maxmind servers.'') w1)"
  define seen where "seen = filter (\<lambda>e. readable e \<noteq> None) entries"
  define names where "names = map path seen"
  have w1: "w1 = emit (HttpGet ''tar.gz.sha256'') w"
    using assms(3) by (rule fetch_serverSha256_fetched)
  obtain r w3 where rw: "read_entries ev entries None [] w2 = (r, w3)"
    by (cases "read_entries ev entries None [] w2")
  have re: "r = Inr (None, names)" "db_mmdb w3 = db_mmdb w2"
    using read_entries_without_mmdb[OF assms(8), of ev None "[]" w2] rw
    by (simp_all add: names_def seen_def)
  have ex: "extract_entries ev tarBuffer w2 = (Inr (None, names), w3)"
    using assms(7) rw re by (simp add: extract_entries_def)
  have "download_and_replace cfg ev cbs serverSha256 w1 = (Inl (JsError (no_mmdb_message names)), w3)"
    using assms(5,6) ex by (simp add: download_and_replace_def Let_def w2_def[symmetric])
  then have u: "updateDb cfg ev cbs w = (Inl (JsError (no_mmdb_message names)), w3)"
    by (rule updateDb_with_update[OF assms(1-4)])
  have db: "db_mmdb w3 = db_mmdb w"
    using re(2) by (simp add: w2_def w1 emit_def log_if_def)
  have msg: "no_mmdb_message names =
      ''Failed to get MaxMind database from the tar response, no .mmdb file found. Only found:''
      @ (if seen = [] then [CHR 0x0A]
         else concat (map (\<lambda>e. CHR 0x0A # '' - '' @ path e) seen))"
    by (simp add: no_mmdb_message_text names_def comp_def)
  have single: "fst (updateDb cfg ev cbs w) =
      Inl (JsError
        (''Failed to get MaxMind database from the tar response, no .mmdb file found. Only found:''
         @ [CHR 0x0A] @ '' - GeoLite2-Country.csv''))"
    if "entries = [TarEntry ''GeoLite2-Country.csv'' (Some chunks)]" for chunks
    using that by (simp add: u msg seen_def)
  have main: "fst (updateDb cfg ev cbs w) =
      Inl (JsError
        (''Failed to get MaxMind database from the tar response, no .mmdb file found. Only found:''
         @ (if seen = [] then [CHR 0x0A]
            else concat (map (\<lambda>e. CHR 0x0A # '' - '' @ path e) seen))))"
    unfolding u msg by simp
  have kept: "db_mmdb (snd (updateDb cfg ev cbs w)) = db_mmdb w"
    unfolding u using db by simp
  show ?thesis
    unfolding seen_def[symmetric]
    by (intro conjI allI impI) (rule main, rule kept, erule single)
qed

theorem updateDb_no_mmdb_entry_witness:
  "untar (example_env\<lparr>untar := (\<lambda>b. (example_archive, False))\<rparr>) [0xab, 0xc1] = (example_archive, False)
   \<and> filter (\<lambda>e. readable e \<noteq> None) example_archive =
       [TarEntry ''COPYRIGHT.txt'' (Some [[1]]), TarEntry ''LICENSE.txt'' (Some []),
        TarEntry ''GeoLite2-Country.csv'' (Some [[1, 2]])]
   \<and> fst (updateDb example_config (example_env\<lparr>untar := (\<lambda>b. (example_archive, False))\<rparr>) [0]
        (empty_world\<lparr>db_mmdb := Some [7]\<rparr>)) =
       Inl (JsError
         (''Failed to get MaxMind database from the tar response, no .mmdb file found. Only found:''
          @ [CHR 0x0A] @ '' - COPYRIGHT.txt''
          @ [CHR 0x0A] @ '' - LICENSE.txt''
          @ [CHR 0x0A] @ '' - GeoLite2-Country.csv''))
   \<and> db_mmdb (snd (updateDb example_config (example_env\<lparr>untar := (\<lambda>b. (example_archive, False))\<rparr>) [0]
        (empty_world\<lparr>db_mmdb := Some [7]\<rparr>))) = Some [7]
   \<and> untar example_env [0xab, 0xc1] = ([TarEntry ''GeoLite2-Country.csv'' (Some [[1, 2]])], False)
   \<and> fst (updateDb example_config example_env [0] (empty_world\<lparr>db_mmdb := Some [7]\<rparr>)) =
       Inl (JsError
         (''Failed to get MaxMind database from the tar response, no .mmdb file found. Only found:''
          @ [CHR 0x0A] @ '' - GeoLite2-Country.csv''))
   \<and> db_mmdb (snd (updateDb example_config example_env [0] (empty_world\<lparr>db_mmdb := Some [7]\<rparr>))) =
       Some [7]"
proof -
  define ev where "ev = example_env\<lparr>untar := (\<lambda>b. (example_archive, False))\<rparr>"
  define w where "w = empty_world\<lparr>db_mmdb := Some [7]\<rparr>"
  have h1: "read_lastChecked ev w = Inr None" "read_lastChecked example_env w = Inr None"
    by (simp_all add: ev_def w_def example_simps)
  have h2: "read_localSha256 ev w = Inr (Some ''07'')"
           "read_localSha256 example_env w = Inr (Some ''07'')"
    by (simp_all add: ev_def w_def example_simps)
  have h3: "fetch_serverSha256 example_config ev None w =
              (Continues (Some ''abc1''), emit (HttpGet ''tar.gz.sha256'') w)"
           "fetch_serverSha256 example_config example_env None w =
              (Continues (Some ''abc1''), emit (HttpGet ''tar.gz.sha256'') w)"
    by (simp_all add: ev_def w_def example_simps)
  have h4: "update_needed (Some ''abc1'') (Some ''07'')"
    by (simp add: update_needed_def)
  have h5: "request_body ''tar.gz'' (tar_endpoint ev) = Inr [0xab, 0xc1]"
           "request_body ''tar.gz'' (tar_endpoint example_env) = Inr [0xab, 0xc1]"
    by (simp_all add: ev_def example_simps)
  have h6: "getSha256FromBuffer (digest ev) [0xab, 0xc1] = ''abc1''"
           "getSha256FromBuffer (digest example_env) [0xab, 0xc1] = ''abc1''"
    by (simp_all add: ev_def example_simps)
  have h7: "untar ev [0xab, 0xc1] = (example_archive, False)"
    by (simp add: ev_def)
  have h7': "untar example_env [0xab, 0xc1] =
               ([TarEntry ''GeoLite2-Country.csv'' (Some [[1, 2]])], False)"
    by (simp add: example_env_def)
  have h8: "\<forall>e \<in> set example_archive. \<not> endsWith (path e) ''.mmdb''"
    by (simp add: example_archive_def endsWith_def)
  have h8': "\<forall>e \<in> set [TarEntry ''GeoLite2-Country.csv'' (Some [[1, 2]])].
               \<not> endsWith (path e) ''.mmdb''"
    by (simp add: endsWith_def)
  have seen: "filter (\<lambda>e. readable e \<noteq> None) example_archive =
      [TarEntry ''COPYRIGHT.txt'' (Some [[1]]), TarEntry ''LICENSE.txt'' (Some []),
       TarEntry ''GeoLite2-Country.csv'' (Some [[1, 2]])]"
    by (simp add: example_archive_def)
  have several: "fst (updateDb example_config ev [0] w) =
       Inl (JsError
         (''Failed to get MaxMind database from the tar response, no .mmdb file found. Only found:''
          @ [CHR 0x0A] @ '' - COPYRIGHT.txt''
          @ [CHR 0x0A] @ '' - LICENSE.txt''
          @ [CHR 0x0A] @ '' - GeoLite2-Country.csv''))
     \<and> db_mmdb (snd (updateDb example_config ev [0] w)) = Some [7]"
    using updateDb_no_mmdb_entry[OF h1(1) h2(1) h3(1) h4 h5(1) h6(1) h7 h8, of "[0]", unfolded seen]
    by simp (simp add: w_def empty_world_def)
  have single: "fst (updateDb example_config example_env [0] w) =
       Inl (JsError
         (''Failed to get MaxMind database from the tar response, no .mmdb file found. Only found:''
          @ [CHR 0x0A] @ '' - GeoLite2-Country.csv''))
     \<and> db_mmdb (snd (updateDb example_config example_env [0] w)) = Some [7]"
    using updateDb_no_mmdb_entry[OF h1(2) h2(2) h3(2) h4 h5(2) h6(2) h7' h8', of "[0]"]
    by simp (simp add: w_def empty_world_def)
  show ?thesis
    using several single h7 h7' seen
    by (simp add: ev_def[symmetric] w_def[symmetric])
qed

subsection \<open>Network failures\<close>

text \<open>
  With \<open>ignoreNetworkErrors\<close> set, a failure of the request for the digest (or of the read
  of its body) ends the cycle without an error; the request is the only call made, so
  the checkpoint is not written.
\<close>

lemma updateDb_ignores_digest_failure:
  assumes "read_lastChecked ev w = Inr lastChecked"
      and "read_localSha256 ev w = Inr localSha256"
      and "hash_check_due ev lastChecked"
      and "request_body ''tar.gz.sha256'' (sha256_endpoint ev) = Inl e"
      and "ignoreNetworkErrors cfg"
  shows "updateDb cfg ev cbs w = (Inr (), emit (HttpGet ''tar.gz.sha256'') w)"
  using assms by (simp add: updateDb_def fetch_serverSha256_def Let_def)

text \<open>
  A failure of the request for the archive is thrown whatever \<open>ignoreNetworkErrors\<close>
  says: the flag is not read on that path. The checkpoint is not written.
\<close>

lemma updateDb_throws_download_failure:
  assumes "read_lastChecked ev w = Inr lastChecked"
      and "read_localSha256 ev w = Inr localSha256"
      and "fetch_serverSha256 cfg ev lastChecked w = (Continues (Some serverSha256), w1)"
      and "update_needed (Some serverSha256) localSha256"
      and "request_body ''tar.gz'' (tar_endpoint ev) = Inl e"
  shows "fst (updateDb cfg ev cbs w) = Inl e
       \<and> lastChecked_txt (snd (updateDb cfg ev cbs w)) = lastChecked_txt w"
proof -
  define w2 where "w2 = emit (HttpGet ''tar.gz'')
    (log_if (verbose cfg) (ConsoleLog ''Downloading new database from Maxmind servers.'') w1)"
  have w1: "w1 = emit (HttpGet ''tar.gz.sha256'') w"
    using assms(3) by (rule fetch_serverSha256_fetched)
  have "download_and_replace cfg ev cbs serverSha256 w1 = (Inl e, w2)"
    using assms(5) by (simp add: download_and_replace_def Let_def w2_def)
  then have u: "updateDb cfg ev cbs w = (Inl e, w2)"
    by (rule updateDb_with_update[OF assms(1-4)])
  show ?thesis unfolding u by (simp add: w2_def w1 emit_def log_if_def)
qed

text \<open>
  C2 at a concrete input: \<open>ignoreNetworkErrors\<close> is set, the storage directory is empty,
  the request for the digest succeeds and the request for the archive is answered with
  status 503 (or is rejected by the transport). The cycle throws; the claim says it ends
  without raising. The checkpoint is not written, as the claim says.
\<close>

theorem updateDb_download_failure_with_ignoreNetworkErrors:
  "ignoreNetworkErrors (example_config\<lparr>ignoreNetworkErrors := True\<rparr>)
   \<and> fst (updateDb (example_config\<lparr>ignoreNetworkErrors := True\<rparr>)
        (example_env\<lparr>tar_endpoint := Response 503 None\<rparr>) [0] empty_world) =
       Inl (JsError (''Maxmind request to '' @ [CHR 0x22] @ ''tar.gz'' @ [CHR 0x22]
                     @ '' failed, status code was 503''))
   \<and> fst (updateDb (example_config\<lparr>ignoreNetworkErrors := True\<rparr>)
        (example_env\<lparr>tar_endpoint := Rejected\<rparr>) [0] empty_world) = Inl FetchRejected
   \<and> lastChecked_txt (snd (updateDb (example_config\<lparr>ignoreNetworkErrors := True\<rparr>)
        (example_env\<lparr>tar_endpoint := Response 503 None\<rparr>) [0] empty_world)) = None"
proof -
  define cfg where "cfg = example_config\<lparr>ignoreNetworkErrors := True\<rparr>"
  have s: "String_of_number 503 = ''503''"
    by (simp add: String_of_number.simps digit_char_def)
  have a: "updateDb cfg (example_env\<lparr>tar_endpoint := Response 503 None\<rparr>) [0] empty_world =
      (Inl (JsError (''Maxmind request to '' @ [CHR 0x22] @ ''tar.gz'' @ [CHR 0x22]
                     @ '' failed, status code was 503'')),
       empty_world\<lparr>effects := [HttpGet ''tar.gz.sha256'', HttpGet ''tar.gz'']\<rparr>)"
    by (simp add: cfg_def updateDb_def download_and_replace_def log_if_def example_simps s)
  have b: "updateDb cfg (example_env\<lparr>tar_endpoint := Rejected\<rparr>) [0] empty_world =
      (Inl FetchRejected,
       empty_world\<lparr>effects := [HttpGet ''tar.gz.sha256'', HttpGet ''tar.gz'']\<rparr>)"
    by (simp add: cfg_def updateDb_def download_and_replace_def log_if_def example_simps)
  show ?thesis
    unfolding cfg_def[symmetric] a b by (simp add: cfg_def empty_world_def)
qed

subsection \<open>The replace window\<close>

lemma remove_db_promises:
  "promises (snd (remove_db ev w)) = promises w"
  by (simp add: remove_db_def emit_def Let_def split: option.splits)

lemma rename_temp_to_db_promises:
  "promises (snd (rename_temp_to_db ev w)) = promises w"
  by (simp add: rename_temp_to_db_def emit_def Let_def split: option.splits)

lemma remove_then_rename_promises:
  "promises (snd (remove_then_rename ev w)) = promises w"
  by (simp add: remove_then_rename_def remove_db_promises rename_temp_to_db_promises
      split: prod.splits sum.splits)
    (metis remove_db_promises rename_temp_to_db_promises snd_conv)+

text \<open>The steps of a commit that fail, and with which error.\<close>

lemma remove_then_rename_fails_iff:
  "fst (remove_then_rename ev w) = Inl e \<longleftrightarrow>
     (fails ev RemoveDb \<and> e = OtherIoError)
   \<or> (\<not> fails ev RemoveDb \<and> fails ev RenameTemp \<and> e = OtherIoError)
   \<or> (\<not> fails ev RemoveDb \<and> \<not> fails ev RenameTemp \<and> tempDb_mmdb w = None \<and> e = NotFound)"
  by (auto simp: remove_then_rename_def remove_db_def rename_temp_to_db_def emit_def Let_def
      split: option.splits)

lemma commit_result:
  "commit ev w =
     (fst (remove_then_rename ev (snd (open_window w))),
      close_window (length (promises w)) (snd (remove_then_rename ev (snd (open_window w)))))"
  by (simp add: commit_def open_window_def split: prod.splits)

lemma commit_closes_window:
  "rewritePromise (snd (commit ev w)) = None
   \<and> settled (snd (commit ev w)) (Some (length (promises w)))"
  by (simp add: commit_result close_window_def settled_def remove_then_rename_promises
      open_window_def)

text \<open>
  C7: when the removal of the old file fails with anything but its absence, or the rename
  fails, \<open>commit\<close> ends with that error, and in the state it leaves the field
  \<open>#rewritePromise\<close> is \<open>null\<close> and the promise of this window is resolved. So a call of
  \<open>getDbBuffer\<close> that waited on that promise goes on to read the file, and so does a call
  made afterwards.
\<close>

theorem commit_failure_closes_window:
  assumes "fst (remove_then_rename ev (snd (open_window w))) = Inl e"
  shows "fst (commit ev w) = Inl e
       \<and> rewritePromise (snd (commit ev w)) = None
       \<and> settled (snd (commit ev w)) (Some (fst (open_window w)))
       \<and> getDbBuffer_resume ev (snd (commit ev w)) (AwaitingRewrite (Some (fst (open_window w)))) =
           Returned (getDbBuffer_read ev (snd (commit ev w)))
       \<and> getDbBuffer_resume ev (snd (commit ev w)) (getDbBuffer_call (snd (commit ev w))) =
           Returned (getDbBuffer_read ev (snd (commit ev w)))"
proof -
  have p: "fst (open_window w) = length (promises w)"
    by (simp add: open_window_def)
  have r: "fst (commit ev w) = Inl e"
    using assms by (simp add: commit_result)
  have c: "rewritePromise (snd (commit ev w)) = None"
          "settled (snd (commit ev w)) (Some (length (promises w)))"
    using commit_closes_window[of ev w] by simp_all
  have n: "settled (snd (commit ev w)) None"
    by (simp add: settled_def)
  show ?thesis
    using r c n by (simp add: p getDbBuffer_resume_def getDbBuffer_call_def)
qed

theorem commit_failure_closes_window_witness:
  "fst (remove_then_rename (example_env\<lparr>fails := (\<lambda>operation. operation = RemoveDb)\<rparr>)
          (snd (open_window (empty_world\<lparr>db_mmdb := Some [7], tempDb_mmdb := Some [8]\<rparr>)))) =
     Inl OtherIoError
   \<and> fst (commit (example_env\<lparr>fails := (\<lambda>operation. operation = RemoveDb)\<rparr>)
          (empty_world\<lparr>db_mmdb := Some [7], tempDb_mmdb := Some [8]\<rparr>)) = Inl OtherIoError
   \<and> rewritePromise (snd (commit (example_env\<lparr>fails := (\<lambda>operation. operation = RemoveDb)\<rparr>)
          (empty_world\<lparr>db_mmdb := Some [7], tempDb_mmdb := Some [8]\<rparr>))) = None
   \<and> getDbBuffer_resume (example_env\<lparr>fails := (\<lambda>operation. operation = RemoveDb)\<rparr>)
        (snd (commit (example_env\<lparr>fails := (\<lambda>operation. operation = RemoveDb)\<rparr>)
          (empty_world\<lparr>db_mmdb := Some [7], tempDb_mmdb := Some [8]\<rparr>)))
        (AwaitingRewrite (Some 0)) = Returned (Inr (Some [7]))"
proof -
  define ev where "ev = example_env\<lparr>fails := (\<lambda>operation. operation = RemoveDb)\<rparr>"
  define w where "w = empty_world\<lparr>db_mmdb := Some [7], tempDb_mmdb := Some [8]\<rparr>"
  have h: "fst (remove_then_rename ev (snd (open_window w))) = Inl OtherIoError"
    by (simp add: ev_def w_def example_env_def empty_world_def open_window_def
        remove_then_rename_def remove_db_def emit_def)
  have p: "fst (open_window w) = 0"
    by (simp add: w_def empty_world_def open_window_def)
  have d: "getDbBuffer_read ev (snd (commit ev w)) = Inr (Some [7])"
    by (simp add: ev_def w_def example_env_def empty_world_def open_window_def commit_def
        close_window_def remove_then_rename_def remove_db_def emit_def getDbBuffer_read_def
        readFile_db_def)
  show ?thesis
    using commit_failure_closes_window[OF h] h p d
    by (simp add: ev_def[symmetric] w_def[symmetric])
qed

text \<open>
  The commit run one part at a time comes to the result of \<open>commit\<close> after four parts
  (three when the removal fails, after which nothing changes any more).
\<close>

lemma commit_steps_agree:
  "commit_step ev (commit_step ev (commit_step ev (commit_step ev (Staged, w)))) =
     (Finished (fst (commit ev w)), snd (commit ev w))"
  by (simp add: commit_result remove_then_rename_def open_window_def close_window_def
      remove_db_def rename_temp_to_db_def emit_def Let_def split: option.splits)

text \<open>
  A call of \<open>getDbBuffer\<close> made while the window is open waits: it reads the promise of
  the window, which is not resolved.
\<close>

lemma getDbBuffer_waits_in_window:
  "getDbBuffer_resume ev (snd (open_window w)) (getDbBuffer_call (snd (open_window w))) =
     AwaitingRewrite (Some (length (promises w)))"
  by (simp add: getDbBuffer_resume_def getDbBuffer_call_def open_window_def settled_def)

text \<open>
  C6 at a concrete schedule. \<open>db.mmdb\<close> holds the bytes 1 2 3 and the new artifact 4 5 6
  is staged in \<open>tempDb.mmdb\<close>. A call of \<open>getDbBuffer\<close> evaluates \<open>#rewritePromise\<close> while
  it is still \<open>null\<close>; before its read of the file takes effect, the cycle opens the window
  and removes the old file. The read then finds no file and the call returns \<open>null\<close>,
  during the replace (the window is open, the rename has not happened) and without
  having waited; the claim says it waits and returns one of the two artifacts. Once the
  commit is through, the file holds the new artifact.
\<close>

theorem getDbBuffer_races_with_replace:
  "readers (io_run example_env
              [CallGetDbBuffer 1, CommitStep, CommitStep, ResumeGetDbBuffer 1]
              \<lparr>store = empty_world\<lparr>db_mmdb := Some [1, 2, 3], tempDb_mmdb := Some [4, 5, 6]\<rparr>,
               committing = Staged, readers = Map.empty\<rparr>) 1 = Some (Returned (Inr None))
   \<and> committing (io_run example_env
              [CallGetDbBuffer 1, CommitStep, CommitStep, ResumeGetDbBuffer 1]
              \<lparr>store = empty_world\<lparr>db_mmdb := Some [1, 2, 3], tempDb_mmdb := Some [4, 5, 6]\<rparr>,
               committing = Staged, readers = Map.empty\<rparr>) = OldRemoved 0
   \<and> rewritePromise (store (io_run example_env
              [CallGetDbBuffer 1, CommitStep, CommitStep, ResumeGetDbBuffer 1]
              \<lparr>store = empty_world\<lparr>db_mmdb := Some [1, 2, 3], tempDb_mmdb := Some [4, 5, 6]\<rparr>,
               committing = Staged, readers = Map.empty\<rparr>)) = Some 0
   \<and> db_mmdb (store (io_run example_env
              [CallGetDbBuffer 1, CommitStep, CommitStep, ResumeGetDbBuffer 1, CommitStep, CommitStep]
              \<lparr>store = empty_world\<lparr>db_mmdb := Some [1, 2, 3], tempDb_mmdb := Some [4, 5, 6]\<rparr>,
               committing = Staged, readers = Map.empty\<rparr>)) = Some [4, 5, 6]
   \<and> committing (io_run example_env
              [CallGetDbBuffer 1, CommitStep, CommitStep, ResumeGetDbBuffer 1, CommitStep, CommitStep]
              \<lparr>store = empty_world\<lparr>db_mmdb := Some [1, 2, 3], tempDb_mmdb := Some [4, 5, 6]\<rparr>,
               committing = Staged, readers = Map.empty\<rparr>) = Finished (Inr ())"
  by (simp add: io_run_def io_step_def example_env_def empty_world_def open_window_def
      close_window_def remove_db_def rename_temp_to_db_def emit_def getDbBuffer_call_def
      getDbBuffer_resume_def getDbBuffer_read_def readFile_db_def settled_def)

section \<open>Properties of the re-entrancy guard\<close>

lemma sched_run_snoc: "sched_run (es @ [e]) s = sched_step (sched_run es s) e"
  by (simp add: sched_run_def)

text \<open>The flag is set exactly while one execution of \<open>#updateDb\<close> has not settled.\<close>

lemma sched_flag_counts:
  "cycles_in_flight (sched_run es new_scheduler) =
     (if updateIsRunning (sched_run es new_scheduler) then 1 else 0)"
proof (induction es rule: rev_induct)
  case Nil
  show ?case by (simp add: sched_run_def new_scheduler_def)
next
  case (snoc e es)
  show ?case
  proof (cases e)
    case Trigger
    with snoc show ?thesis
      by (simp add: sched_run_snoc updateDbIfNotRunning_enter_def)
  next
    case (CycleSettles outcome)
    with snoc show ?thesis
      by (simp add: sched_run_snoc updateDbIfNotRunning_finally_def split: if_splits)
  qed
qed

text \<open>
  C5: after any sequence of triggers and settlements, at most one execution of
  \<open>#updateDb\<close> is in flight. A trigger that arrives while one is running leaves the state
  as it is: it starts nothing. It is not kept either: when the running cycle then
  settles, nothing is in flight, the flag is down and the number of cycles started is
  what it was before the trigger.
\<close>

theorem at_most_one_cycle_in_flight:
  "cycles_in_flight (sched_run es new_scheduler) \<le> 1
   \<and> (updateIsRunning (sched_run es new_scheduler) \<longrightarrow>
        sched_step (sched_run es new_scheduler) Trigger = sched_run es new_scheduler
      \<and> cycles_in_flight (sched_run (es @ [Trigger, CycleSettles outcome]) new_scheduler) = 0
      \<and> \<not> updateIsRunning (sched_run (es @ [Trigger, CycleSettles outcome]) new_scheduler)
      \<and> cycles_started (sched_run (es @ [Trigger, CycleSettles outcome]) new_scheduler) =
          cycles_started (sched_run es new_scheduler))"
proof -
  define s where "s = sched_run es new_scheduler"
  have c: "cycles_in_flight s = (if updateIsRunning s then 1 else 0)"
    unfolding s_def by (rule sched_flag_counts)
  have r: "sched_run (es @ [Trigger, CycleSettles outcome]) new_scheduler =
      sched_step (sched_step s Trigger) (CycleSettles outcome)"
    by (simp add: sched_run_def s_def)
  show ?thesis
    unfolding r s_def[symmetric] using c
    by (simp add: updateDbIfNotRunning_enter_def updateDbIfNotRunning_finally_def)
qed

theorem at_most_one_cycle_in_flight_witness:
  "updateIsRunning (sched_run [Trigger] new_scheduler)
   \<and> cycles_in_flight (sched_run [Trigger] new_scheduler) = 1
   \<and> sched_step (sched_run [Trigger] new_scheduler) Trigger = sched_run [Trigger] new_scheduler
   \<and> cycles_in_flight (sched_run ([Trigger] @ [Trigger, CycleSettles (Inr ())]) new_scheduler) = 0
   \<and> cycles_started (sched_run ([Trigger] @ [Trigger, CycleSettles (Inr ())]) new_scheduler) = 1"
proof -
  have h: "updateIsRunning (sched_run [Trigger] new_scheduler)"
    by (simp add: sched_run_def new_scheduler_def updateDbIfNotRunning_enter_def)
  have n: "cycles_in_flight (sched_run [Trigger] new_scheduler) = 1"
          "cycles_started (sched_run [Trigger] new_scheduler) = 1"
    by (simp_all add: sched_run_def new_scheduler_def updateDbIfNotRunning_enter_def)
  show ?thesis
    using at_most_one_cycle_in_flight[of "[Trigger]" "Inr ()"] h n by simp
qed

section \<open>Properties of the loaded database\<close>

lemma handle_run_snoc: "handle_run (es @ [e]) h = handle_step (handle_run es h) e"
  by (simp add: handle_run_def)

lemma loadDb_ok: "handle_ok h \<Longrightarrow> handle_ok (loadDb dbBuffer h)"
  by (cases "db h") (auto simp: handle_ok_def loadDb_def tryFreeDb_def Let_def less_Suc_eq)

lemma useDb_call_ok: "handle_ok h \<Longrightarrow> handle_ok (useDb_call l h)"
  by (simp add: handle_ok_def useDb_call_def split: option.splits)

lemma useDb_resume_ok: "handle_ok h \<Longrightarrow> handle_ok (useDb_resume l h)"
  by (simp add: handle_ok_def useDb_resume_def split: option.splits lookup.splits)

lemma useDb_finally_ok: "handle_ok h \<Longrightarrow> handle_ok (useDb_finally l h)"
  by (auto simp: handle_ok_def useDb_finally_def tryFreeDb_def Let_def
      split: option.splits lookup.splits)

lemma handle_step_ok: "handle_ok h \<Longrightarrow> handle_ok (handle_step h e)"
  by (cases e) (simp_all add: loadDb_ok useDb_call_ok useDb_resume_ok useDb_finally_ok)

lemma handle_run_ok: "handle_ok (handle_run es new_handle)"
proof (induction es rule: rev_induct)
  case Nil
  show ?case by (simp add: handle_run_def handle_ok_def new_handle_def)
next
  case (snoc e es)
  then show ?case by (simp add: handle_run_snoc handle_step_ok)
qed

text \<open>Whatever the events, no instance is freed twice.\<close>

lemma freed_at_most_once: "distinct (freed (handle_run es new_handle))"
  using handle_run_ok[of es] by (simp add: handle_ok_def)

text \<open>
  An instance is freed only by a step after which it is not the current one and its
  count of lookups is not positive.
\<close>

lemma freed_when_replaced_and_idle:
  assumes "handle_ok h"
      and "d \<in> set (freed (handle_step h e))"
      and "d \<notin> set (freed h)"
  shows "db (handle_step h e) \<noteq> Some d \<and> pending_of (handle_step h e) d \<le> 0"
proof (cases e)
  case (LoadDb dbBuffer)
  with assms show ?thesis
    by (cases "db h")
      (auto simp: handle_ok_def loadDb_def tryFreeDb_def pending_of_def Let_def
        split: if_splits)
next
  case (CallUseDb l)
  with assms show ?thesis by (simp add: useDb_call_def split: option.splits)
next
  case (ResumeUseDb l)
  with assms show ?thesis by (simp add: useDb_resume_def split: option.splits lookup.splits)
next
  case (SettleUseDb l)
  with assms show ?thesis
    by (auto simp: handle_ok_def useDb_finally_def tryFreeDb_def pending_of_def Let_def
        split: option.splits lookup.splits if_splits)
qed

text \<open>
  After every sequence of events \<open>#dbPromise\<close> delivers the current instance (nothing
  before the first load), and the first promise is resolved exactly when it has a value.
\<close>

lemma dbPromise_delivers_current:
  "(initialPromiseResolved (handle_run es new_handle) \<longleftrightarrow>
      initialPromiseValue (handle_run es new_handle) \<noteq> None)
   \<and> (\<not> initialPromiseResolved (handle_run es new_handle) \<longrightarrow>
        dbPromise (handle_run es new_handle) = InitialPromise)
   \<and> promise_value (handle_run es new_handle) (dbPromise (handle_run es new_handle)) =
       db (handle_run es new_handle)"
proof (induction es rule: rev_induct)
  case Nil
  show ?case by (simp add: handle_run_def new_handle_def promise_value_def)
next
  case (snoc e es)
  define h where "h = handle_run es new_handle"
  have ih: "initialPromiseResolved h \<longleftrightarrow> initialPromiseValue h \<noteq> None"
           "\<not> initialPromiseResolved h \<longrightarrow> dbPromise h = InitialPromise"
           "promise_value h (dbPromise h) = db h"
    using snoc unfolding h_def by simp_all
  show ?case
    unfolding handle_run_snoc h_def[symmetric]
  proof (cases e)
    case (LoadDb dbBuffer)
    with ih show "(initialPromiseResolved (handle_step h e) \<longleftrightarrow>
        initialPromiseValue (handle_step h e) \<noteq> None)
      \<and> (\<not> initialPromiseResolved (handle_step h e) \<longrightarrow> dbPromise (handle_step h e) = InitialPromise)
      \<and> promise_value (handle_step h e) (dbPromise (handle_step h e)) = db (handle_step h e)"
      by (cases "db h")
        (auto simp: loadDb_def tryFreeDb_def promise_value_def Let_def)
  next
    case (CallUseDb l)
    with ih show "(initialPromiseResolved (handle_step h e) \<longleftrightarrow>
        initialPromiseValue (handle_step h e) \<noteq> None)
      \<and> (\<not> initialPromiseResolved (handle_step h e) \<longrightarrow> dbPromise (handle_step h e) = InitialPromise)
      \<and> promise_value (handle_step h e) (dbPromise (handle_step h e)) = db (handle_step h e)"
      by (auto simp: useDb_call_def promise_value_def split: option.splits db_promise.splits)
  next
    case (ResumeUseDb l)
    with ih show "(initialPromiseResolved (handle_step h e) \<longleftrightarrow>
        initialPromiseValue (handle_step h e) \<noteq> None)
      \<and> (\<not> initialPromiseResolved (handle_step h e) \<longrightarrow> dbPromise (handle_step h e) = InitialPromise)
      \<and> promise_value (handle_step h e) (dbPromise (handle_step h e)) = db (handle_step h e)"
      by (auto simp: useDb_resume_def promise_value_def
          split: option.splits lookup.splits db_promise.splits)
  next
    case (SettleUseDb l)
    with ih show "(initialPromiseResolved (handle_step h e) \<longleftrightarrow>
        initialPromiseValue (handle_step h e) \<noteq> None)
      \<and> (\<not> initialPromiseResolved (handle_step h e) \<longrightarrow> dbPromise (handle_step h e) = InitialPromise)
      \<and> promise_value (handle_step h e) (dbPromise (handle_step h e)) = db (handle_step h e)"
      by (auto simp: useDb_finally_def tryFreeDb_def promise_value_def Let_def
          split: option.splits lookup.splits db_promise.splits)
  qed
qed

text \<open>A promise that has delivered an instance delivers the same instance ever after.\<close>

lemma promise_value_stable:
  assumes "initialPromiseResolved h \<longleftrightarrow> initialPromiseValue h \<noteq> None"
      and "promise_value h p = Some d"
  shows "promise_value (handle_step h e) p = Some d"
proof (cases e)
  case (LoadDb dbBuffer)
  with assms show ?thesis
    by (cases "db h")
      (auto simp: loadDb_def tryFreeDb_def promise_value_def Let_def split: db_promise.splits)
next
  case (CallUseDb l)
  with assms show ?thesis
    by (auto simp: useDb_call_def promise_value_def split: option.splits db_promise.splits)
next
  case (ResumeUseDb l)
  with assms show ?thesis
    by (auto simp: useDb_resume_def promise_value_def
        split: option.splits lookup.splits db_promise.splits)
next
  case (SettleUseDb l)
  with assms show ?thesis
    by (auto simp: useDb_finally_def tryFreeDb_def promise_value_def Let_def
        split: option.splits lookup.splits db_promise.splits)
qed

text \<open>
  A lookup that starts when an instance is current waits for a promise that delivers
  that instance, and is given the instance its promise delivers when it resumes.
\<close>

lemma useDb_call_reads_current:
  assumes "lookups (handle_run es new_handle) l = None"
  shows "\<exists>p. lookups (useDb_call l (handle_run es new_handle)) l = Some (AwaitingDb p)
           \<and> promise_value (handle_run es new_handle) p = db (handle_run es new_handle)"
  using assms dbPromise_delivers_current[of es] by (simp add: useDb_call_def)

lemma useDb_resume_runs_on_delivered:
  assumes "lookups h l = Some (AwaitingDb p)"
      and "promise_value h p = Some d"
  shows "lookups (useDb_resume l h) l = Some (InFn d)
       \<and> queried (useDb_resume l h) = queried h @ [(l, d)]"
  using assms by (simp add: useDb_resume_def)

text \<open>
  C1 at a concrete schedule. The first database is loaded (instance 0). A lookup calls
  \<open>#useDb\<close> and reads \<open>#dbPromise\<close>, which delivers instance 0, the current one; it waits
  at the await of line 91. Before it goes on, a new database arrives: \<open>#loadDb\<close> finds no
  lookup counted for instance 0 and frees it. The lookup then resumes with instance 0:
  it raises the count of that instance to 1 and calls its lookup method. So the lookup
  runs against the version that was current when it started, as the claim says, but that
  version was disposed before the lookup completed, and it now has a positive count while
  disposed. The earlier form of the class, without counts, frees instance 0 and queries
  it on the same schedule.
\<close>

theorem lookup_on_freed_instance:
  "db (handle_run [LoadDb [1], CallUseDb 7] new_handle) = Some 0
   \<and> lookups (handle_run [LoadDb [1], CallUseDb 7] new_handle) 7 = Some (AwaitingDb InitialPromise)
   \<and> promise_value (handle_run [LoadDb [1], CallUseDb 7] new_handle) InitialPromise = Some 0
   \<and> freed (handle_run [LoadDb [1], CallUseDb 7, LoadDb [2]] new_handle) = [0]
   \<and> lookups (handle_run [LoadDb [1], CallUseDb 7, LoadDb [2], ResumeUseDb 7] new_handle) 7 =
       Some (InFn 0)
   \<and> queried (handle_run [LoadDb [1], CallUseDb 7, LoadDb [2], ResumeUseDb 7] new_handle) = [(7, 0)]
   \<and> pending_of (handle_run [LoadDb [1], CallUseDb 7, LoadDb [2], ResumeUseDb 7] new_handle) 0 = 1
   \<and> freed (handle_run [LoadDb [1], CallUseDb 7, LoadDb [2], ResumeUseDb 7] new_handle) = [0]
   \<and> db (handle_run [LoadDb [1], CallUseDb 7, LoadDb [2], ResumeUseDb 7] new_handle) = Some 1
   \<and> freed (loadDb_uncounted [2] (useDb_call 7 (loadDb_uncounted [1] new_handle))) = [0]
   \<and> queried (lookup_resume_uncounted 7
        (loadDb_uncounted [2] (useDb_call 7 (loadDb_uncounted [1] new_handle)))) = [(7, 0)]"
  by (simp add: handle_run_def new_handle_def loadDb_def useDb_call_def useDb_resume_def
      tryFreeDb_def pending_of_def promise_value_def loadDb_uncounted_def
      lookup_resume_uncounted_def)

end
